theory Spec2Isabelle
  imports Complex_Main
begin

section \<open>The solid constitutive law of TACS\<close>

text \<open>
  This theory embeds \<^verbatim>\<open>TACSSolidConstitutive\<close> (the material law of a three-dimensional
  solid) and the two default methods of \<^verbatim>\<open>TACSElementModel\<close> that the properties below
  are about.

  Conventions of the embedding:
  \<^item> \<^verbatim>\<open>TacsScalar\<close> and \<^verbatim>\<open>double\<close> are the real numbers: sums and products are exact,
    rounding is not modelled.
  \<^item> \<^verbatim>\<open>int\<close> is \<open>int\<close>: the code compares and copies integers and never computes
    with them.
  \<^item> An array argument is the list of the entries of the caller's buffer. A function
    that writes into a buffer returns the buffer as it leaves it. Distinct array
    arguments are distinct buffers (no aliasing).
  \<^item> An access beyond the end of a buffer is undefined in C++: the operation then
    yields \<open>None\<close>. Every other outcome is \<open>Some\<close> of the results.
  \<^item> A pointer that the code tests against \<^verbatim>\<open>NULL\<close> is a value of type \<open>ptr\<close>.
  \<^item> A member function takes the instance and returns it as the call leaves it,
    together with its outputs.
\<close>

type_synonym TacsScalar = real

datatype 'a ptr = Null | Buf "'a list"

subsection \<open>The material-property source\<close>

text \<open>
  Modelled from the spec: the class \<^verbatim>\<open>TACSMaterialProperties\<close> is declared and defined
  outside the source files at hand; only its calls are visible. Each field holds what
  the method of that name hands back: the density and the specific heat, entry \<open>i\<close> of
  the 21 stored entries of the symmetric 3-D tangent stiffness, of the 6 thermal strain
  coefficients and of the 3 stored entries of the 2-D heat-flux tangent, the failure
  criterion as a function of the stress, and the criterion together with entry \<open>i\<close> of
  its stress sensitivity. Nothing is assumed about the values.
\<close>

record TACSMaterialProperties =
  getDensity :: TacsScalar
  getSpecificHeat :: TacsScalar
  stiffness3D :: "nat \<Rightarrow> TacsScalar"
  thermalStrain3D :: "nat \<Rightarrow> TacsScalar"
  heatFlux2D :: "nat \<Rightarrow> TacsScalar"
  vonMisesFailure3D :: "TacsScalar list \<Rightarrow> TacsScalar"
  vonMisesFailure3DStressSens :: "TacsScalar list \<Rightarrow> TacsScalar \<times> (nat \<Rightarrow> TacsScalar)"

text \<open>
  Modelled from the spec: \<^verbatim>\<open>evalTangentStiffness3D(C)\<close> stores the 21 entries of the upper
  triangle of the symmetric stiffness matrix, row by row, in \<^verbatim>\<open>C[0..20]\<close>. The value is
  the list of the entries stored.
\<close>

definition evalTangentStiffness3D :: "TACSMaterialProperties \<Rightarrow> TacsScalar list" where
  "evalTangentStiffness3D props = map (stiffness3D props) [0..<21]"

text \<open>
  Modelled from the spec: \<^verbatim>\<open>evalThermalStrain3D(e)\<close> stores the 6 thermal strain
  coefficients in \<^verbatim>\<open>e[0..5]\<close>.
\<close>

definition evalThermalStrain3D :: "TACSMaterialProperties \<Rightarrow> TacsScalar list" where
  "evalThermalStrain3D props = map (thermalStrain3D props) [0..<6]"

text \<open>
  Modelled from the spec: \<^verbatim>\<open>evalTangentHeatFlux2D(C)\<close> stores the 3 entries of the
  symmetric 2-D heat-flux tangent in \<^verbatim>\<open>C[0..2]\<close>.
\<close>

definition evalTangentHeatFlux2D :: "TACSMaterialProperties \<Rightarrow> TacsScalar list" where
  "evalTangentHeatFlux2D props = map (heatFlux2D props) [0..<3]"

subsection \<open>The instance\<close>

text \<open>
  The fields of \<^verbatim>\<open>TACSSolidConstitutive\<close>. The pointer \<^verbatim>\<open>properties\<close> is \<open>None\<close> when it
  is \<^verbatim>\<open>NULL\<close>. The reference count of the property source is not a field of the
  instance and is left out.
\<close>

record TACSSolidConstitutive =
  properties :: "TACSMaterialProperties option"
  t :: TacsScalar
  tNum :: int
  tlb :: TacsScalar
  tub :: TacsScalar

definition TACSSolidConstitutive ::
  "TACSMaterialProperties option \<Rightarrow> TacsScalar \<Rightarrow> int \<Rightarrow> TacsScalar \<Rightarrow> TacsScalar
     \<Rightarrow> TACSSolidConstitutive" where
  "TACSSolidConstitutive props t' tNum' tlb' tub' =
     \<lparr>properties = props, t = t', tNum = tNum', tlb = tlb', tub = tub'\<rparr>"

subsection \<open>Design variables\<close>

definition getDesignVarNums ::
  "TACSSolidConstitutive \<Rightarrow> int \<Rightarrow> int \<Rightarrow> int ptr
     \<Rightarrow> (TACSSolidConstitutive \<times> int \<times> int ptr) option" where
  "getDesignVarNums self elemIndex dvLen dvNums =
     (if tNum self \<ge> 0 then
        (case dvNums of
           Buf b \<Rightarrow>
             if dvLen \<ge> 1 then
               (if length b < 1 then None else Some (self, 1, Buf (b[0 := tNum self])))
             else Some (self, 1, dvNums)
         | Null \<Rightarrow> Some (self, 1, dvNums))
      else Some (self, 0, dvNums))"

definition setDesignVars ::
  "TACSSolidConstitutive \<Rightarrow> int \<Rightarrow> int \<Rightarrow> TacsScalar list \<Rightarrow> TACSSolidConstitutive option" where
  "setDesignVars self elemIndex dvLen dvs =
     (if tNum self \<ge> 0 \<and> dvLen \<ge> 1 then
        (if length dvs < 1 then None else Some (self\<lparr>t := dvs ! 0\<rparr>))
      else Some self)"

definition getDesignVars ::
  "TACSSolidConstitutive \<Rightarrow> int \<Rightarrow> int \<Rightarrow> TacsScalar list
     \<Rightarrow> (TACSSolidConstitutive \<times> TacsScalar list) option" where
  "getDesignVars self elemIndex dvLen dvs =
     (if tNum self \<ge> 0 \<and> dvLen \<ge> 1 then
        (if length dvs < 1 then None else Some (self, dvs[0 := t self]))
      else Some (self, dvs))"



subsection \<open>Density and specific heat\<close>

definition evalDensity ::
  "TACSSolidConstitutive \<Rightarrow> int \<Rightarrow> real list \<Rightarrow> TacsScalar list
     \<Rightarrow> TACSSolidConstitutive \<times> TacsScalar" where
  "evalDensity self elemIndex pt X =
     (case properties self of
        Some props \<Rightarrow> (self, t self * getDensity props)
      | None \<Rightarrow> (self, 0))"

definition evalSpecificHeat ::
  "TACSSolidConstitutive \<Rightarrow> int \<Rightarrow> real list \<Rightarrow> TacsScalar list
     \<Rightarrow> TACSSolidConstitutive \<times> TacsScalar" where
  "evalSpecificHeat self elemIndex pt X =
     (case properties self of
        Some props \<Rightarrow> (self, t self * getSpecificHeat props)
      | None \<Rightarrow> (self, 0))"

subsection \<open>Stress and tangent stiffness\<close>

text \<open>
  The product of the symmetric 6 by 6 matrix stored in \<open>C\<close> (upper triangle, row by row,
  21 entries) with a 6-entry vector. The source writes these six lines out in
  \<^verbatim>\<open>evalStress\<close>, in \<^verbatim>\<open>evalFailure\<close> and twice in \<^verbatim>\<open>evalFailureStrainSens\<close>.
\<close>

definition symMatVec :: "TacsScalar list \<Rightarrow> TacsScalar list \<Rightarrow> TacsScalar list" where
  "symMatVec C e =
     [C!0*e!0 + C!1*e!1  + C!2*e!2  + C!3*e!3  + C!4*e!4  + C!5*e!5,
      C!1*e!0 + C!6*e!1  + C!7*e!2  + C!8*e!3  + C!9*e!4  + C!10*e!5,
      C!2*e!0 + C!7*e!1  + C!11*e!2 + C!12*e!3 + C!13*e!4 + C!14*e!5,
      C!3*e!0 + C!8*e!1  + C!12*e!2 + C!15*e!3 + C!16*e!4 + C!17*e!5,
      C!4*e!0 + C!9*e!1  + C!13*e!2 + C!16*e!3 + C!18*e!4 + C!19*e!5,
      C!5*e!0 + C!10*e!1 + C!14*e!2 + C!17*e!3 + C!19*e!4 + C!20*e!5]"

definition evalStress ::
  "TACSSolidConstitutive \<Rightarrow> int \<Rightarrow> real list \<Rightarrow> TacsScalar list \<Rightarrow> TacsScalar list
     \<Rightarrow> TacsScalar list \<Rightarrow> (TACSSolidConstitutive \<times> TacsScalar list) option" where
  "evalStress self elemIndex pt X e s =
     (case properties self of
        Some props \<Rightarrow>
          (let C = evalTangentStiffness3D props in
           if length e < 6 \<or> length s < 6 then None
           else Some (self, symMatVec C e @ drop 6 s))
      | None \<Rightarrow>
          if length s < 6 then None
          else Some (self, replicate 6 0 @ drop 6 s))"

definition evalTangentStiffness ::
  "TACSSolidConstitutive \<Rightarrow> int \<Rightarrow> real list \<Rightarrow> TacsScalar list \<Rightarrow> TacsScalar list
     \<Rightarrow> (TACSSolidConstitutive \<times> TacsScalar list) option" where
  "evalTangentStiffness self elemIndex pt X C =
     (case properties self of
        Some props \<Rightarrow>
          if length C < 21 then None
          else
            (let C' = evalTangentStiffness3D props @ drop 21 C in
             Some (self, map (\<lambda>c. c * t self) (take 6 C') @ drop 6 C'))
      | None \<Rightarrow>
          if length C < 6 then None
          else Some (self, replicate 6 0 @ drop 6 C))"

subsection \<open>Thermal strain and heat flux\<close>

definition evalThermalStrain ::
  "TACSSolidConstitutive \<Rightarrow> int \<Rightarrow> real list \<Rightarrow> TacsScalar list \<Rightarrow> TacsScalar
     \<Rightarrow> TacsScalar list \<Rightarrow> (TACSSolidConstitutive \<times> TacsScalar list) option" where
  "evalThermalStrain self elemIndex pt X theta e =
     (case properties self of
        Some props \<Rightarrow>
          if length e < 6 then None
          else
            (let e' = evalThermalStrain3D props @ drop 6 e in
             Some (self, map (\<lambda>a. a * theta) (take 6 e') @ drop 6 e'))
      | None \<Rightarrow>
          if length e < 6 then None
          else Some (self, replicate 6 0 @ drop 6 e))"

definition evalHeatFlux ::
  "TACSSolidConstitutive \<Rightarrow> int \<Rightarrow> real list \<Rightarrow> TacsScalar list \<Rightarrow> TacsScalar list
     \<Rightarrow> TacsScalar list \<Rightarrow> (TACSSolidConstitutive \<times> TacsScalar list) option" where
  "evalHeatFlux self elemIndex pt X grad flux =
     (case properties self of
        Some props \<Rightarrow>
          (let C = evalTangentHeatFlux2D props in
           if length grad < 3 \<or> length flux < 2 then None
           else Some (self, [C!0*grad!0 + C!1*grad!1, C!1*grad!1 + C!2*grad!2] @ drop 2 flux))
      | None \<Rightarrow> Some (self, flux))"

text \<open>
  In \<^verbatim>\<open>evalTangentHeatFlux\<close> the array handed to the property source is a local
  \<^verbatim>\<open>TacsScalar C[3]\<close> declared inside the branch; it hides the parameter \<open>C\<close> and is
  dropped at the end of the branch.
\<close>

definition evalTangentHeatFlux ::
  "TACSSolidConstitutive \<Rightarrow> int \<Rightarrow> real list \<Rightarrow> TacsScalar list \<Rightarrow> TacsScalar list
     \<Rightarrow> (TACSSolidConstitutive \<times> TacsScalar list) option" where
  "evalTangentHeatFlux self elemIndex pt X C =
     (case properties self of
        Some props \<Rightarrow>
          (let C_local = evalTangentHeatFlux2D props in
           Some (self, C))
      | None \<Rightarrow> Some (self, C))"

subsection \<open>Failure criterion\<close>

definition evalFailure ::
  "TACSSolidConstitutive \<Rightarrow> int \<Rightarrow> real list \<Rightarrow> TacsScalar list \<Rightarrow> TacsScalar list
     \<Rightarrow> (TACSSolidConstitutive \<times> TacsScalar) option" where
  "evalFailure self elemIndex pt X e =
     (case properties self of
        Some props \<Rightarrow>
          (let C = evalTangentStiffness3D props in
           if length e < 6 then None
           else
             (let s = symMatVec C e in
              Some (self, vonMisesFailure3D props s)))
      | None \<Rightarrow> Some (self, 0))"

definition evalFailureStrainSens ::
  "TACSSolidConstitutive \<Rightarrow> int \<Rightarrow> real list \<Rightarrow> TacsScalar list \<Rightarrow> TacsScalar list
     \<Rightarrow> TacsScalar list \<Rightarrow> (TACSSolidConstitutive \<times> TacsScalar \<times> TacsScalar list) option" where
  "evalFailureStrainSens self elemIndex pt X e dfde =
     (case properties self of
        Some props \<Rightarrow>
          (let C = evalTangentStiffness3D props in
           if length e < 6 \<or> length dfde < 6 then None
           else
             (let s = symMatVec C e;
                  (fail, sens_of) = vonMisesFailure3DStressSens props s;
                  sens = map sens_of [0..<6]
              in Some (self, fail, symMatVec C sens @ drop 6 dfde)))
      | None \<Rightarrow> Some (self, 0, dfde))"

subsection \<open>The defaults of the physics model\<close>

text \<open>
  \<^verbatim>\<open>TACSElementModel\<close> has no fields. Its default \<^verbatim>\<open>getDesignVarNums\<close> and
  \<^verbatim>\<open>evalPointQuantity\<close> return 0 and touch none of their arguments; the value is the
  returned integer and the output buffer as the call leaves it.
\<close>

definition TACSElementModel_getDesignVarNums :: "int \<Rightarrow> int \<Rightarrow> int ptr \<Rightarrow> int \<times> int ptr" where
  "TACSElementModel_getDesignVarNums elemIndex dvLen dvNums = (0, dvNums)"

definition evalPointQuantity ::
  "int \<Rightarrow> int \<Rightarrow> real \<Rightarrow> int \<Rightarrow> real list \<Rightarrow> TacsScalar list \<Rightarrow> TacsScalar list
     \<Rightarrow> TacsScalar list \<Rightarrow> TacsScalar list \<Rightarrow> TacsScalar ptr \<Rightarrow> int \<times> TacsScalar ptr" where
  "evalPointQuantity elemIndex quantityType time n pt X Xd Ut Ux quantity = (0, quantity)"

subsection \<open>Sample instances\<close>

text \<open>
  A property source with the stiffness of an isotropic solid with both Lame parameters
  equal to 1 (3 on the normal diagonal, 1 between normal components, 1 on the shear
  diagonal), and the square of the first stress component as its failure criterion.
  The solid \<open>isoSolid\<close> has this source and thickness 2 as design variable number 0 with
  bounds 1 and 4; \<open>bareSolid\<close> is the same solid without a property source; \<open>fixedSolid\<close>
  owns no design variable.
\<close>

definition isoProps :: TACSMaterialProperties where
  "isoProps =
     \<lparr>getDensity = 3, getSpecificHeat = 5,
      stiffness3D = (\<lambda>i. if i = 0 \<or> i = 6 \<or> i = 11 then 3
                         else if i = 1 \<or> i = 2 \<or> i = 7 \<or> i = 15 \<or> i = 18 \<or> i = 20 then 1
                         else 0),
      thermalStrain3D = (\<lambda>i. if i < 3 then 1 else 0),
      heatFlux2D = (\<lambda>i. if i = 1 then 0 else 1),
      vonMisesFailure3D = (\<lambda>s. s ! 0 * s ! 0),
      vonMisesFailure3DStressSens =
        (\<lambda>s. (s ! 0 * s ! 0, \<lambda>i. if i = 0 then 2 * s ! 0 else 0))\<rparr>"

definition isoSolid :: TACSSolidConstitutive where
  "isoSolid = TACSSolidConstitutive (Some isoProps) 2 0 1 4"

definition bareSolid :: TACSSolidConstitutive where
  "bareSolid = TACSSolidConstitutive None 2 0 1 4"

definition fixedSolid :: TACSSolidConstitutive where
  "fixedSolid = TACSSolidConstitutive (Some isoProps) 2 (- 1) 1 4"

section \<open>Evaluation lemmas\<close>

lemma upt_0_21: "[0..<21] = [0,1,2,3,4,5,6,7,8,9,10,11,12,13,14,15,16,17,18,19,20]"
  by (simp add: upt_rec)

lemma upt_0_6: "[0..<6] = [0,1,2,3,4,5]"
  by (simp add: upt_rec)

lemma replicate_6: "replicate 6 x = [x,x,x,x,x,x]"
  by (simp add: numeral_eq_Suc)

lemma replicate_21: "replicate 21 x = [x,x,x,x,x,x,x,x,x,x,x,x,x,x,x,x,x,x,x,x,x]"
  by (simp add: numeral_eq_Suc)

lemma isoSolid_fields:
  "properties isoSolid = Some isoProps" "t isoSolid = 2" "tNum isoSolid = 0"
  "tlb isoSolid = 1" "tub isoSolid = 4"
  by (simp_all add: isoSolid_def TACSSolidConstitutive_def)

lemma bareSolid_fields:
  "properties bareSolid = None" "t bareSolid = 2" "tNum bareSolid = 0"
  by (simp_all add: bareSolid_def TACSSolidConstitutive_def)

lemma isoProps_stiffness:
  "evalTangentStiffness3D isoProps = [3,1,1,0,0,0, 3,1,0,0,0, 3,0,0,0, 1,0,0, 1,0, 1]"
  by (simp add: evalTangentStiffness3D_def isoProps_def upt_0_21)

lemma isoProps_criterion:
  "vonMisesFailure3D isoProps x = x ! 0 * x ! 0"
  "vonMisesFailure3DStressSens isoProps x
     = (x ! 0 * x ! 0, \<lambda>i. if i = 0 then 2 * x ! 0 else 0)"
  by (simp_all add: isoProps_def)




lemma sum_lessThan_6:
  fixes f :: "nat \<Rightarrow> real"
  shows "(\<Sum>i<6. f i) = f 0 + f 1 + f 2 + f 3 + f 4 + f 5"
  by (simp add: eval_nat_numeral)

lemma length_6_cases:
  assumes "length xs = 6"
  obtains a b c d e f where "xs = [a, b, c, d, e, f]"
  using assms by (auto simp add: eval_nat_numeral length_Suc_conv)

lemma evalTangentStiffness3D_entries:
  "evalTangentStiffness3D props =
     [stiffness3D props 0, stiffness3D props 1, stiffness3D props 2, stiffness3D props 3,
      stiffness3D props 4, stiffness3D props 5, stiffness3D props 6, stiffness3D props 7,
      stiffness3D props 8, stiffness3D props 9, stiffness3D props 10, stiffness3D props 11,
      stiffness3D props 12, stiffness3D props 13, stiffness3D props 14, stiffness3D props 15,
      stiffness3D props 16, stiffness3D props 17, stiffness3D props 18, stiffness3D props 19,
      stiffness3D props 20]"
  by (simp add: evalTangentStiffness3D_def upt_0_21)

section \<open>The symmetric product\<close>

lemma length_symMatVec: "length (symMatVec C x) = 6"
  by (simp add: symMatVec_def)

text \<open>The product is linear in the vector: \<open>C (e + h d) = C e + h (C d)\<close>.\<close>

lemma symMatVec_linear:
  assumes "length e = 6" and "length d = 6"
  shows "symMatVec C (map2 (\<lambda>a b. a + h * b) e d)
           = map2 (\<lambda>a b. a + h * b) (symMatVec C e) (symMatVec C d)"
proof -
  from assms(1) obtain e0 e1 e2 e3 e4 e5 where e: "e = [e0, e1, e2, e3, e4, e5]"
    by (rule length_6_cases)
  from assms(2) obtain d0 d1 d2 d3 d4 d5 where d: "d = [d0, d1, d2, d3, d4, d5]"
    by (rule length_6_cases)
  show ?thesis
    unfolding e d by (simp add: symMatVec_def algebra_simps)
qed

text \<open>The packed storage makes the matrix symmetric: \<open>x \<cdot> C y = C x \<cdot> y\<close>.\<close>

lemma symMatVec_symmetric:
  assumes "length x = 6" and "length y = 6"
  shows "(\<Sum>i<6. x ! i * symMatVec C y ! i) = (\<Sum>i<6. symMatVec C x ! i * y ! i)"
proof -
  from assms(1) obtain x0 x1 x2 x3 x4 x5 where x: "x = [x0, x1, x2, x3, x4, x5]"
    by (rule length_6_cases)
  from assms(2) obtain y0 y1 y2 y3 y4 y5 where y: "y = [y0, y1, y2, y3, y4, y5]"
    by (rule length_6_cases)
  show ?thesis
    unfolding x y sum_lessThan_6 by (simp add: symMatVec_def algebra_simps)
qed

section \<open>Degraded mode\<close>

text \<open>
  C3. On an instance without a property source (\<^verbatim>\<open>properties\<close> is \<^verbatim>\<open>NULL\<close>), for every
  strain, point and position: \<^verbatim>\<open>evalStress\<close> returns normally and has written 0 to the
  six entries \<open>s[0..5]\<close> of the stress buffer (a buffer of at least six entries, as the
  interface requires), \<^verbatim>\<open>evalDensity\<close> returns 0 and \<^verbatim>\<open>evalSpecificHeat\<close> returns 0.
  None of the three fails: the results are \<open>Some\<close> or plain values.
\<close>

theorem degraded_mode_fallback:
  assumes "properties self = None" and "6 \<le> length s"
  shows "evalStress self elemIndex pt X e s = Some (self, replicate 6 0 @ drop 6 s) \<and>
         evalDensity self elemIndex pt X = (self, 0) \<and>
         evalSpecificHeat self elemIndex pt X = (self, 0)"
  using assms by (simp add: evalStress_def evalDensity_def evalSpecificHeat_def)

theorem degraded_mode_fallback_witness:
  "properties bareSolid = None \<and> 6 \<le> length [9, 9, 9, 9, 9, 9 :: real] \<and>
   evalStress bareSolid 0 [] [] [1, 2, 3, 4, 5, 6] [9, 9, 9, 9, 9, 9]
     = Some (bareSolid, [0, 0, 0, 0, 0, 0]) \<and>
   evalDensity bareSolid 0 [] [] = (bareSolid, 0) \<and>
   evalSpecificHeat bareSolid 0 [] [] = (bareSolid, 0)"
proof -
  have h1: "properties bareSolid = None" by (rule bareSolid_fields)
  have h2: "6 \<le> length [9, 9, 9, 9, 9, 9 :: real]" by simp
  from degraded_mode_fallback [OF h1 h2, of 0 "[]" "[]" "[1, 2, 3, 4, 5, 6]"] h1
  show ?thesis by (simp add: replicate_6)
qed

text \<open>
  C10. On an instance without a property source, \<^verbatim>\<open>evalHeatFlux\<close> returns the flux
  buffer exactly as it received it: the entries are not set to 0. The zero fallback of
  \<^verbatim>\<open>evalThermalStrain\<close> (six zeros written into a buffer of at least six
  entries), like that of \<^verbatim>\<open>evalStress\<close>, \<^verbatim>\<open>evalDensity\<close> and \<^verbatim>\<open>evalSpecificHeat\<close> above,
  has no counterpart in the heat-flux evaluation.
\<close>

theorem evalHeatFlux_no_zero_fallback:
  assumes "properties self = None"
  shows "evalHeatFlux self elemIndex pt X grad flux = Some (self, flux) \<and>
         (6 \<le> length e \<longrightarrow>
            evalThermalStrain self elemIndex pt X theta e = Some (self, replicate 6 0 @ drop 6 e))"
  using assms by (simp add: evalHeatFlux_def evalThermalStrain_def)

theorem evalHeatFlux_no_zero_fallback_witness:
  "properties bareSolid = None \<and>
   evalHeatFlux bareSolid 0 [] [] [1, 1, 1] [7, 8] = Some (bareSolid, [7, 8]) \<and>
   evalThermalStrain bareSolid 0 [] [] 1 [7, 8, 9, 7, 8, 9] = Some (bareSolid, [0, 0, 0, 0, 0, 0])"
proof -
  have h: "properties bareSolid = None" by (rule bareSolid_fields)
  from evalHeatFlux_no_zero_fallback
         [OF h, of 0 "[]" "[]" "[1, 1, 1]" "[7, 8]" "[7, 8, 9, 7, 8, 9]" 1] h
  show ?thesis by (simp add: replicate_6)
qed

text \<open>
  C9. For every instance, with or without a property source, and for all arguments,
  \<^verbatim>\<open>evalTangentHeatFlux\<close> returns the caller's array \<open>C\<close> exactly as it received it:
  the values of the property source go into the local array of the same name.
\<close>

theorem evalTangentHeatFlux_output_untouched:
  "evalTangentHeatFlux self elemIndex pt X C = Some (self, C)"
  by (simp add: evalTangentHeatFlux_def split: option.splits)

section \<open>Design variables\<close>

text \<open>
  C6. On an instance that owns a design variable (\<open>tNum \<ge> 0\<close>), \<^verbatim>\<open>setDesignVars\<close> with a
  design array of length at least 1 whose first entry is \<open>v\<close>, followed by
  \<^verbatim>\<open>getDesignVars\<close> into an array of length at least 1, puts exactly \<open>v\<close> into the first
  entry of the output, whenever \<open>v\<close> lies between the lower and the upper bound of the
  instance. (The code never reads the bounds in these two calls.)
\<close>

theorem design_var_round_trip:
  assumes "0 \<le> tNum self"
    and "1 \<le> dvLen" and "1 \<le> length dvs" and "dvs ! 0 = v"
    and "1 \<le> outLen" and "1 \<le> length out"
    and "tlb self \<le> v" and "v \<le> tub self"
  shows "setDesignVars self elemIndex dvLen dvs = Some (self\<lparr>t := v\<rparr>) \<and>
         getDesignVars (self\<lparr>t := v\<rparr>) elemIndex outLen out
           = Some (self\<lparr>t := v\<rparr>, out[0 := v]) \<and>
         out[0 := v] ! 0 = v"
  using assms by (cases dvs; cases out; simp add: setDesignVars_def getDesignVars_def)

theorem design_var_round_trip_witness:
  "0 \<le> tNum isoSolid \<and> tlb isoSolid \<le> 3 \<and> 3 \<le> tub isoSolid \<and>
   setDesignVars isoSolid 0 2 [3, 8] = Some (isoSolid\<lparr>t := 3\<rparr>) \<and>
   getDesignVars (isoSolid\<lparr>t := 3\<rparr>) 0 2 [0, 0] = Some (isoSolid\<lparr>t := 3\<rparr>, [3, 0])"
proof -
  have h: "0 \<le> tNum isoSolid" "tlb isoSolid \<le> 3" "3 \<le> tub isoSolid"
    by (simp_all add: isoSolid_fields)
  from design_var_round_trip [of isoSolid 2 "[3, 8]" 3 2 "[0, 0]" 0] h
  show ?thesis by simp
qed

text \<open>
  C7. \<^verbatim>\<open>getDesignVarNums\<close> called with \<open>dvLen = 0\<close> and a null \<open>dvNums\<close> returns the number
  of design variables the instance owns (1 when \<open>tNum \<ge> 0\<close>, 0 otherwise) and writes
  nothing. More generally, whenever the buffer is absent or its stated length \<open>dvLen\<close>
  is below 1, the call returns that count and leaves the buffer as it was. The default
  of the physics model owns no design variable: it returns 0 and writes nothing.
\<close>

theorem size_only_query:
  "(dvNums = Null \<or> dvLen < 1 \<longrightarrow>
      getDesignVarNums self elemIndex dvLen dvNums
        = Some (self, if 0 \<le> tNum self then 1 else 0, dvNums)) \<and>
   getDesignVarNums self elemIndex 0 Null
     = Some (self, if 0 \<le> tNum self then 1 else 0, Null) \<and>
   TACSElementModel_getDesignVarNums elemIndex dvLen dvNums = (0, dvNums)"
  by (auto simp add: getDesignVarNums_def TACSElementModel_getDesignVarNums_def
        split: ptr.splits)

theorem size_only_query_witness:
  "getDesignVarNums isoSolid 0 0 Null = Some (isoSolid, 1, Null) \<and>
   getDesignVarNums isoSolid 0 0 (Buf [7]) = Some (isoSolid, 1, Buf [7]) \<and>
   getDesignVarNums fixedSolid 0 0 Null = Some (fixedSolid, 0, Null)"
  using size_only_query [of Null 0 isoSolid 0] size_only_query [of "Buf [7]" 0 isoSolid 0]
    size_only_query [of Null 0 fixedSolid 0]
  by (simp add: isoSolid_fields fixedSolid_def TACSSolidConstitutive_def)

section \<open>Point quantities of the physics model\<close>

text \<open>
  C8. For every element index, quantity type, time, quadrature point, position and state
  input, the default \<^verbatim>\<open>evalPointQuantity\<close> of the physics model returns the length 0 and
  leaves the quantity buffer as it was. It is an ordinary return, not an error.
\<close>

theorem evalPointQuantity_default_noop:
  "evalPointQuantity elemIndex quantityType time n pt X Xd Ut Ux quantity = (0, quantity)"
  by (simp add: evalPointQuantity_def)

section \<open>Stress against tangent stiffness\<close>

text \<open>
  With thickness 1 the two evaluations agree: the tangent stiffness is then the array of the
  property source, which is the array \<^verbatim>\<open>evalStress\<close> multiplies with.
\<close>

lemma consistency_at_unit_thickness:
  assumes "properties self = Some props" and "t self = 1"
    and "length e = 6" and "6 \<le> length s" and "21 \<le> length C"
  shows "\<exists>C' s'. evalTangentStiffness self elemIndex pt X C = Some (self, C') \<and>
                 evalStress self elemIndex pt X e s = Some (self, s') \<and>
                 symMatVec C' e = take 6 s'"
  using assms
  by (simp add: evalTangentStiffness_def evalStress_def Let_def evalTangentStiffness3D_entries
        symMatVec_def)

text \<open>
  C1. Consistency law: for every 6-entry strain \<open>e\<close>, the product of the symmetric tangent
  stiffness returned by \<^verbatim>\<open>evalTangentStiffness\<close> with \<open>e\<close> equals, entry by entry, the
  stress returned by \<^verbatim>\<open>evalStress\<close> on \<open>e\<close>. The code does not satisfy the law. On
  \<open>isoSolid\<close> (thickness 2) and the strain \<open>(1, 0, 0, 0, 0, 0)\<close>, \<^verbatim>\<open>evalStress\<close> returns
  \<open>(3, 1, 1, 0, 0, 0)\<close>: it multiplies with the stiffness of the property source and
  never with the thickness. \<^verbatim>\<open>evalTangentStiffness\<close> multiplies the entries 0 to 5 of the
  stiffness with the thickness and leaves the entries 6 to 20 as they are; the product of
  its result with the same strain is \<open>(6, 2, 2, 0, 0, 0)\<close>.
\<close>

theorem consistency_law_failing_input:
  "evalStress isoSolid 0 [] [] [1, 0, 0, 0, 0, 0] [0, 0, 0, 0, 0, 0]
     = Some (isoSolid, [3, 1, 1, 0, 0, 0]) \<and>
   evalTangentStiffness isoSolid 0 [] [] (replicate 21 0)
     = Some (isoSolid, [6,2,2,0,0,0, 3,1,0,0,0, 3,0,0,0, 1,0,0, 1,0, 1]) \<and>
   symMatVec [6,2,2,0,0,0, 3,1,0,0,0, 3,0,0,0, 1,0,0, 1,0, 1] [1, 0, 0, 0, 0, 0]
     = [6, 2, 2, 0, 0, 0]"
  by (simp add: evalStress_def evalTangentStiffness_def Let_def isoSolid_fields
        isoProps_stiffness symMatVec_def replicate_21)

text \<open>
  C2. Scaling contract: on an instance with a property source, every entry of the tangent
  stiffness that \<^verbatim>\<open>evalStress\<close> reads is returned by \<^verbatim>\<open>evalTangentStiffness\<close> multiplied
  with the thickness. The code does not satisfy it: \<^verbatim>\<open>evalStress\<close> reads all 21 entries,
  and \<^verbatim>\<open>evalTangentStiffness\<close> multiplies only the entries 0 to 5. On \<open>isoSolid\<close>
  (thickness 2) the returned array differs from the array of the property source
  multiplied with 2 at the entries 6, 7, 11, 15, 18 and 20; entry 6 is 3, not 6. Entry 6
  is read by \<^verbatim>\<open>evalStress\<close>: with the strain \<open>(0, 1, 0, 0, 0, 0)\<close> it is the second entry
  of the stress.
\<close>

theorem partial_scaling_failing_input:
  "evalTangentStiffness isoSolid 0 [] [] (replicate 21 0)
     = Some (isoSolid, [6,2,2,0,0,0, 3,1,0,0,0, 3,0,0,0, 1,0,0, 1,0, 1]) \<and>
   map (\<lambda>c. c * t isoSolid) (evalTangentStiffness3D isoProps)
     = [6,2,2,0,0,0, 6,2,0,0,0, 6,0,0,0, 2,0,0, 2,0, 2] \<and>
   evalStress isoSolid 0 [] [] [0, 1, 0, 0, 0, 0] [0, 0, 0, 0, 0, 0]
     = Some (isoSolid, [1, 3, 1, 0, 0, 0])"
  by (simp add: evalStress_def evalTangentStiffness_def Let_def isoSolid_fields
        isoProps_stiffness symMatVec_def replicate_21)

section \<open>Failure criterion and its strain sensitivity\<close>

text \<open>
  C5. On an instance with a property source and for every 6-entry strain \<open>e\<close>, let \<open>C\<close> be
  the stiffness of the property source, \<open>s = C e\<close> the stress and \<open>sens\<close> the stress
  sensitivity that the failure criterion of the property source reports at \<open>s\<close>. The
  criterion itself is code outside this development; it enters through two facts about
  it at the stress \<open>s\<close>: \<^verbatim>\<open>vonMisesFailure3DStressSens\<close> returns the value of
  \<^verbatim>\<open>vonMisesFailure3D\<close>, and \<open>sens\<close> is the derivative of \<^verbatim>\<open>vonMisesFailure3D\<close> at \<open>s\<close>
  (along every direction \<open>d\<close> the derivative is \<open>sens \<cdot> d\<close>). Then
  \<^verbatim>\<open>evalFailureStrainSens\<close> returns the failure value that \<^verbatim>\<open>evalFailure\<close> returns on \<open>e\<close>,
  it writes \<open>C sens\<close> (the same symmetric map applied to the stress sensitivity) into
  \<open>dfde[0..5]\<close>, and these six numbers are the exact derivative of the failure value of
  \<^verbatim>\<open>evalFailure\<close> with respect to the strain at \<open>e\<close>: along every direction \<open>d\<close> the
  failure value of \<open>e + h d\<close>, as a function of \<open>h\<close>, has the derivative \<open>dfde \<cdot> d\<close> at
  \<open>h = 0\<close>.
\<close>

theorem failure_chain_rule:
  assumes props: "properties self = Some props"
    and len: "length e = 6" "6 \<le> length dfde"
    and C: "C = evalTangentStiffness3D props"
    and s: "s = symMatVec C e"
    and sens: "sens = map (snd (vonMisesFailure3DStressSens props s)) [0..<6]"
    and same: "fst (vonMisesFailure3DStressSens props s) = vonMisesFailure3D props s"
    and deriv: "\<forall>d. length d = 6 \<longrightarrow>
        ((\<lambda>h. vonMisesFailure3D props (map2 (\<lambda>a b. a + h * b) s d))
           has_real_derivative (\<Sum>i<6. sens ! i * d ! i)) (at 0)"
  shows "evalFailure self elemIndex pt X e = Some (self, vonMisesFailure3D props s) \<and>
         evalFailureStrainSens self elemIndex pt X e dfde
           = Some (self, vonMisesFailure3D props s, symMatVec C sens @ drop 6 dfde) \<and>
         (\<forall>d. length d = 6 \<longrightarrow>
            (\<exists>F. (\<forall>h. evalFailure self elemIndex pt X (map2 (\<lambda>a b. a + h * b) e d)
                         = Some (self, F h)) \<and>
                 (F has_real_derivative (\<Sum>i<6. (symMatVec C sens @ drop 6 dfde) ! i * d ! i))
                   (at 0)))"
proof (intro conjI allI impI)
  show "evalFailure self elemIndex pt X e = Some (self, vonMisesFailure3D props s)"
    using props len by (simp add: evalFailure_def Let_def C s)
next
  show "evalFailureStrainSens self elemIndex pt X e dfde
           = Some (self, vonMisesFailure3D props s, symMatVec C sens @ drop 6 dfde)"
    using props len same
    by (simp add: evalFailureStrainSens_def Let_def case_prod_beta C [symmetric] s [symmetric] sens)
next
  fix d :: "TacsScalar list"
  assume d: "length d = 6"
  let ?F = "\<lambda>h. vonMisesFailure3D props (map2 (\<lambda>a b. a + h * b) s (symMatVec C d))"
  have val: "evalFailure self elemIndex pt X (map2 (\<lambda>a b. a + h * b) e d) = Some (self, ?F h)"
    for h
    using props len d
    by (simp add: evalFailure_def Let_def C [symmetric] s symMatVec_linear)
  have "length sens = 6"
    by (simp add: sens)
  then have sym: "(\<Sum>i<6. sens ! i * symMatVec C d ! i) = (\<Sum>i<6. symMatVec C sens ! i * d ! i)"
    using d by (rule symMatVec_symmetric)
  have front: "(symMatVec C sens @ drop 6 dfde) ! i = symMatVec C sens ! i" if "i < 6" for i
    using that by (simp add: nth_append length_symMatVec)
  have "(?F has_real_derivative (\<Sum>i<6. sens ! i * symMatVec C d ! i)) (at 0)"
    using deriv length_symMatVec [of C d] by blast
  then have dF: "(?F has_real_derivative (\<Sum>i<6. (symMatVec C sens @ drop 6 dfde) ! i * d ! i))
                   (at 0)"
    by (simp add: sym front)
  show "\<exists>F. (\<forall>h. evalFailure self elemIndex pt X (map2 (\<lambda>a b. a + h * b) e d)
                         = Some (self, F h)) \<and>
                 (F has_real_derivative (\<Sum>i<6. (symMatVec C sens @ drop 6 dfde) ! i * d ! i))
                   (at 0)"
  proof (intro exI [of _ ?F] conjI allI)
    fix h
    show "evalFailure self elemIndex pt X (map2 (\<lambda>a b. a + h * b) e d) = Some (self, ?F h)"
      by (rule val)
  next
    show "(?F has_real_derivative (\<Sum>i<6. (symMatVec C sens @ drop 6 dfde) ! i * d ! i)) (at 0)"
      by (rule dF)
  qed
qed

theorem failure_chain_rule_witness:
  "evalFailure isoSolid 0 [] [] [1, 0, 0, 0, 0, 0] = Some (isoSolid, 9) \<and>
   evalFailureStrainSens isoSolid 0 [] [] [1, 0, 0, 0, 0, 0] [0, 0, 0, 0, 0, 0]
     = Some (isoSolid, 9, [18, 6, 6, 0, 0, 0]) \<and>
   (\<exists>F. (\<forall>h. evalFailure isoSolid 0 [] [] [1 + h, 0, 0, 0, 0, 0] = Some (isoSolid, F h)) \<and>
        (F has_real_derivative 18) (at 0))"
proof -
  let ?C = "[3,1,1,0,0,0, 3,1,0,0,0, 3,0,0,0, 1,0,0, 1,0, 1] :: real list"
  let ?e = "[1, 0, 0, 0, 0, 0] :: real list"
  let ?s = "[3, 1, 1, 0, 0, 0] :: real list"
  let ?sens = "[6, 0, 0, 0, 0, 0] :: real list"
  have h1: "properties isoSolid = Some isoProps" by (rule isoSolid_fields)
  have h2: "length ?e = 6" "6 \<le> length [0, 0, 0, 0, 0, 0 :: real]" by simp_all
  have h3: "?C = evalTangentStiffness3D isoProps" by (simp add: isoProps_stiffness)
  have h4: "?s = symMatVec ?C ?e" by (simp add: symMatVec_def)
  have h5: "?sens = map (snd (vonMisesFailure3DStressSens isoProps ?s)) [0..<6]"
    by (simp add: isoProps_criterion upt_0_6)
  have h6: "fst (vonMisesFailure3DStressSens isoProps ?s) = vonMisesFailure3D isoProps ?s"
    by (simp add: isoProps_criterion)
  have h7: "\<forall>d. length d = 6 \<longrightarrow>
        ((\<lambda>h. vonMisesFailure3D isoProps (map2 (\<lambda>a b. a + h * b) ?s d))
           has_real_derivative (\<Sum>i<6. ?sens ! i * d ! i)) (at 0)"
  proof (intro allI impI)
    fix d :: "real list"
    assume "length d = 6"
    then obtain d0 d1 d2 d3 d4 d5 where d: "d = [d0, d1, d2, d3, d4, d5]"
      by (rule length_6_cases)
    have "((\<lambda>h. (3 + h * d0) * (3 + h * d0)) has_real_derivative 6 * d0) (at 0)"
      by (auto intro!: derivative_eq_intros)
    then show "((\<lambda>h. vonMisesFailure3D isoProps (map2 (\<lambda>a b. a + h * b) ?s d))
           has_real_derivative (\<Sum>i<6. ?sens ! i * d ! i)) (at 0)"
      by (simp add: d isoProps_criterion sum_lessThan_6)
  qed
  have c: "symMatVec ?C ?sens = [18, 6, 6, 0, 0, 0]"
    by (simp add: symMatVec_def)
  from failure_chain_rule [OF h1 h2(1) h2(2) h3 h4 h5 h6 h7, of 0 "[]" "[]"]
  have r: "evalFailure isoSolid 0 [] [] ?e = Some (isoSolid, 9)"
    "evalFailureStrainSens isoSolid 0 [] [] ?e [0, 0, 0, 0, 0, 0]
       = Some (isoSolid, 9, [18, 6, 6, 0, 0, 0])"
    "\<forall>d. length d = 6 \<longrightarrow>
       (\<exists>F. (\<forall>h. evalFailure isoSolid 0 [] [] (map2 (\<lambda>a b. a + h * b) ?e d)
                    = Some (isoSolid, F h)) \<and>
            (F has_real_derivative (\<Sum>i<6. [18, 6, 6, 0, 0, 0] ! i * d ! i)) (at 0))"
    by (simp_all add: c isoProps_criterion)
  from r(3) [rule_format, of "[1, 0, 0, 0, 0, 0]"]
  have "\<exists>F. (\<forall>h. evalFailure isoSolid 0 [] [] [1 + h, 0, 0, 0, 0, 0] = Some (isoSolid, F h)) \<and>
        (F has_real_derivative 18) (at 0)"
    by (simp add: sum_lessThan_6)
  with r(1) r(2) show ?thesis by blast
qed

section \<open>What the operations change, and what their results depend on\<close>



end
